theory Spec2Isabelle
  imports Main "HOL-Library.FSet" "HOL-Library.Multiset"
begin

section \<open>Atoms, handles and values\<close>

text \<open>
  \<^verbatim>\<open>Type\<close> is the numeric tag of an atom type. The values of \<^verbatim>\<open>BIND_LINK\<close> and
  \<^verbatim>\<open>SET_LINK\<close> and the type hierarchy are assigned by the name server, which is outside
  \<^verbatim>\<open>BindLink.cc\<close>; they are taken as parameters below.
\<close>

type_synonym Type = nat

text \<open>
  A \<^verbatim>\<open>Handle\<close> is a pointer to an atom and may be null (\<^verbatim>\<open>Handle::UNDEFINED\<close>): it is an
  \<open>option\<close>. A \<^verbatim>\<open>HandleSeq\<close> is a vector of handles, a \<^verbatim>\<open>HandleSet\<close> a \<^verbatim>\<open>std::set\<close> of
  handles: a finite set.

  Modelled from the spec: the class \<^verbatim>\<open>UnorderedLink\<close> (opencog/atoms/core/UnorderedLink.h)
  is missing. The spec calls what \<^verbatim>\<open>createUnorderedLink\<close> builds "a single
  unordered-collection aggregate fragment" in which "order is not significant": an
  unordered link holds the finite set of its members.
\<close>

datatype Atom =
    Node Type string
  | Link Type "Atom option list"
  | UnorderedLink Type "Atom option fset"

type_synonym Handle = "Atom option"
type_synonym HandleSeq = "Handle list"
type_synonym HandleSet = "Handle fset"

text \<open>
  A \<^verbatim>\<open>ValuePtr\<close> points to a value that is an atom or some other kind of value, or is
  null. \<^verbatim>\<open>HandleCast\<close> is the dynamic pointer cast to an atom: null unless the value is an
  atom. A handle converts to a \<^verbatim>\<open>ValuePtr\<close> implicitly (the \<^verbatim>\<open>return rewr\<close> of
  \<^verbatim>\<open>execute\<close>).
\<close>

datatype ValuePtr = NullValue | AtomValue Atom | OtherValue

fun HandleCast :: "ValuePtr \<Rightarrow> Handle" where
  "HandleCast (AtomValue a) = Some a"
| "HandleCast NullValue = None"
| "HandleCast OtherValue = None"

fun ValueCast :: "Handle \<Rightarrow> ValuePtr" where
  "ValueCast (Some a) = AtomValue a"
| "ValueCast None = NullValue"

definition createUnorderedLink :: "HandleSet \<Rightarrow> Type \<Rightarrow> Handle" where
  "createUnorderedLink hs t = Some (UnorderedLink t hs)"

section \<open>The atom space\<close>

text \<open>
  Modelled from the spec: the class \<^verbatim>\<open>AtomSpace\<close> and its \<^verbatim>\<open>add_atom\<close> are missing. The spec
  gives the store the operation "insert(Fragment) -> FragmentId (idempotent,
  deduplicating)": "insertion of an already-present fragment is idempotent and returns the
  existing identifier". The store is the list of the atoms it holds, in the order they
  were inserted; the identifier is the handle \<^verbatim>\<open>add_atom\<close> returns. Nothing is said about a
  null handle: it is not inserted.

  An \<^verbatim>\<open>AtomSpace*\<close> is an address or null; the heap gives the atom space at each address.
\<close>

type_synonym AtomSpace = "Atom list"
type_synonym AtomSpacePtr = "nat option"
type_synonym heap = "nat \<Rightarrow> AtomSpace"

fun add_atom :: "AtomSpace \<Rightarrow> Handle \<Rightarrow> AtomSpace \<times> Handle" where
  "add_atom s None = (s, None)"
| "add_atom s (Some a) = (if a \<in> set s then (s, Some a) else (s @ [a], Some a))"

section \<open>Exceptions\<close>

text \<open>
  \<^verbatim>\<open>throw InvalidParamException(TRACE_INFO, fmt, args...)\<close> is recorded with its format
  string and its arguments as given. An exception thrown by code called from this file
  (the pattern matcher, the instantiator, the variable extraction of the base classes) is
  \<open>Collaborator x\<close>. Dereferencing a null \<^verbatim>\<open>AtomSpace*\<close> is not an exception of the
  language; the model makes it a failure of its own.
\<close>

datatype fmt_arg = ArgString string | ArgSize nat

datatype 'x failure =
    InvalidParamException string "fmt_arg list"
  | Collaborator 'x
  | NullPointerDereference

section \<open>The state of a BindLink\<close>

text \<open>
  \<^verbatim>\<open>Pattern\<close> is declared outside this file; the code here reads the sizes of \<^verbatim>\<open>mandatory\<close>
  and \<^verbatim>\<open>optionals\<close> and writes \<^verbatim>\<open>redex_name\<close>.
\<close>

record Pattern =
  redex_name :: string
  mandatory :: HandleSeq
  optionals :: HandleSeq

text \<open>
  The fields of \<^verbatim>\<open>BindLink\<close> and of its base classes that this file reads or writes, named
  as in the source without the leading underscore; \<open>atom_type\<close> is what \<^verbatim>\<open>get_type()\<close>
  returns. \<open>'v\<close> is the class \<^verbatim>\<open>Variables\<close>.
\<close>

record 'v BindLink =
  atom_type :: Type
  outgoing :: HandleSeq
  vardecl :: Handle
  body :: Handle
  implicand :: Handle
  varlist :: 'v
  pat :: Pattern
  virtual :: HandleSeq
  components :: "HandleSeq list"
  atom_space :: AtomSpacePtr

text \<open>
  The part of \<^verbatim>\<open>DefaultImplicator\<close> this file touches: the atom space it was built on, the
  public \<^verbatim>\<open>implicand\<close>, the result set and the flag behind \<^verbatim>\<open>optionals_present()\<close>.
\<close>

record DefaultImplicator =
  impl_as :: AtomSpacePtr
  impl_implicand :: Handle
  result_set :: HandleSet
  optionals_present :: bool

definition DefaultImplicator_new :: "AtomSpacePtr \<Rightarrow> DefaultImplicator" where
  "DefaultImplicator_new as =
     \<lparr>impl_as = as, impl_implicand = None, result_set = {||}, optionals_present = False\<rparr>"

section \<open>Collaborators\<close>

text \<open>
  What \<^verbatim>\<open>BindLink.cc\<close> calls and does not define. Each may throw (\<open>Inl x\<close>).
  \<^item> \<open>isA\<close>, \<open>getTypeName\<close>, \<open>BIND_LINK\<close>, \<open>SET_LINK\<close>: the name server and the atom types.
  \<^item> \<open>find_variables\<close>: \<^verbatim>\<open>_varlist.find_variables(h)\<close>, from the current variables and a
    handle to the updated variables.
  \<^item> \<open>init_scoped_variables\<close>: initialises \<^verbatim>\<open>_varlist\<close> from a declaration.
  \<^item> \<open>unbundle_clauses\<close>, \<open>common_init\<close>, \<open>setup_components\<close>: methods of \<^verbatim>\<open>PatternLink\<close>
    that update the object.
  \<^item> \<open>satisfy\<close>: \<^verbatim>\<open>PatternLink::satisfy\<close>, a const method that runs the search with the
    implicator as callback; it updates the implicator and may write to the atom spaces.
  \<^item> \<open>inst_execute\<close>: \<^verbatim>\<open>impl.inst.execute(h, silent)\<close>, the instantiator of the implicator.
\<close>

record ('x, 'v) collaborators =
  isA :: "Type \<Rightarrow> Type \<Rightarrow> bool"
  getTypeName :: "Type \<Rightarrow> string"
  BIND_LINK :: Type
  SET_LINK :: Type
  find_variables :: "'v \<Rightarrow> Handle \<Rightarrow> 'x + 'v"
  init_scoped_variables :: "Handle \<Rightarrow> 'x + 'v"
  unbundle_clauses :: "'v BindLink \<Rightarrow> Handle \<Rightarrow> 'x + 'v BindLink"
  common_init :: "'v BindLink \<Rightarrow> 'x + 'v BindLink"
  setup_components :: "'v BindLink \<Rightarrow> 'x + 'v BindLink"
  satisfy :: "'v BindLink \<Rightarrow> DefaultImplicator \<Rightarrow> heap \<Rightarrow> 'x + DefaultImplicator \<times> heap"
  inst_execute :: "DefaultImplicator \<Rightarrow> Handle \<Rightarrow> bool \<Rightarrow> heap \<Rightarrow> 'x + ValuePtr \<times> heap"

section \<open>BindLink::extract_variables and BindLink::init\<close>

definition extract_variables ::
  "('x, 'v) collaborators \<Rightarrow> 'v BindLink \<Rightarrow> HandleSeq \<Rightarrow> 'x failure + 'v BindLink" where
  "extract_variables env this oset =
     (let sz = length oset in
      if sz < 2 \<or> 3 < sz then
        Inl (InvalidParamException
               ''Expecting an outgoing set size of at most two, got %d'' [ArgSize sz])
      else if 2 = sz then
        (case find_variables env (varlist this) (oset ! 0) of
           Inl x \<Rightarrow> Inl (Collaborator x)
         | Inr vl \<Rightarrow> Inr (this\<lparr>body := oset ! 0, implicand := oset ! 1, varlist := vl\<rparr>))
      else
        (case init_scoped_variables env (oset ! 0) of
           Inl x \<Rightarrow> Inl (Collaborator x)
         | Inr vl \<Rightarrow>
             Inr (this\<lparr>vardecl := oset ! 0, body := oset ! 1, implicand := oset ! 2,
                       varlist := vl\<rparr>)))"

definition init :: "('x, 'v) collaborators \<Rightarrow> 'v BindLink \<Rightarrow> 'x failure + 'v BindLink" where
  "init env this =
     (let t = atom_type this in
      if \<not> isA env t (BIND_LINK env) then
        Inl (InvalidParamException ''Expecting a BindLink, got %s''
               [ArgString (getTypeName env t)])
      else
        (case extract_variables env this (outgoing this) of
           Inl e \<Rightarrow> Inl e
         | Inr this1 \<Rightarrow>
        (case unbundle_clauses env this1 (body this1) of
           Inl x \<Rightarrow> Inl (Collaborator x)
         | Inr this2 \<Rightarrow>
        (case common_init env this2 of
           Inl x \<Rightarrow> Inl (Collaborator x)
         | Inr this3 \<Rightarrow>
        (case setup_components env this3 of
           Inl x \<Rightarrow> Inl (Collaborator x)
         | Inr this4 \<Rightarrow>
             Inr (this4\<lparr>pat := (pat this4)\<lparr>redex_name := ''anonymous BindLink''\<rparr>\<rparr>))))))"

section \<open>BindLink::do_execute and BindLink::execute\<close>

text \<open>
  \<^verbatim>\<open>do_execute\<close> works on its own copy of the pointer \<^verbatim>\<open>as\<close>; \<^verbatim>\<open>execute\<close> keeps the one it
  was called with. The \<^verbatim>\<open>dynamic_cast\<close> of the implicator to \<^verbatim>\<open>DefaultPatternMatchCB\<close>, a
  base class of \<^verbatim>\<open>DefaultImplicator\<close>, always succeeds, so \<^verbatim>\<open>intu->optionals_present()\<close> reads
  the flag of \<^verbatim>\<open>impl\<close>. The parameter \<^verbatim>\<open>silent\<close> is not used by \<^verbatim>\<open>do_execute\<close>; the
  instantiator is called with the literal \<^verbatim>\<open>true\<close>.
\<close>

definition do_execute ::
  "('x, 'v) collaborators \<Rightarrow> 'v BindLink \<Rightarrow> AtomSpacePtr \<Rightarrow> bool \<Rightarrow> heap
     \<Rightarrow> 'x failure + HandleSet \<times> heap" where
  "do_execute env this as silent h =
     (let as1 = (if as = None then atom_space this else as);
          impl = (DefaultImplicator_new as1)\<lparr>impl_implicand := implicand this\<rparr>;
          do_conn_check = False
      in
      if do_conn_check \<and> 0 = length (virtual this) \<and> 1 < length (components this) then
        Inl (InvalidParamException
               ''BindLink consists of multiple disconnected components!'' [])
      else
        (case satisfy env this impl h of
           Inl x \<Rightarrow> Inl (Collaborator x)
         | Inr (impl1, h1) \<Rightarrow>
             if 0 < fcard (result_set impl1) then Inr (result_set impl1, h1)
             else
               if 0 = length (mandatory (pat this)) \<and> 0 < length (optionals (pat this))
                  \<and> \<not> optionals_present impl1
               then
                 (case inst_execute env impl1 (impl_implicand impl1) True h1 of
                    Inl x \<Rightarrow> Inl (Collaborator x)
                  | Inr (v, h2) \<Rightarrow> Inr (finsert (HandleCast v) {||}, h2))
               else Inr ({||}, h1)))"

definition execute ::
  "('x, 'v) collaborators \<Rightarrow> 'v BindLink \<Rightarrow> AtomSpacePtr \<Rightarrow> bool \<Rightarrow> heap
     \<Rightarrow> 'x failure + ValuePtr \<times> heap" where
  "execute env this as silent h =
     (case do_execute env this as silent h of
        Inl e \<Rightarrow> Inl e
      | Inr (gs, h1) \<Rightarrow>
          (let rewr = createUnorderedLink gs (SET_LINK env) in
           case as of
             None \<Rightarrow> Inl NullPointerDereference
           | Some a \<Rightarrow>
               (let (s, rewr1) = add_atom (h1 a) rewr
                in Inr (ValueCast rewr1, h1(a := s)))))"


section \<open>The implicator's result set\<close>

text \<open>
  Modelled from the spec: the grounding callback of the implicator is missing. The spec
  speaks of "the matcher's internal result ordering" and of a grounding set that is
  "semantically a set, not a sequence", and the source of \<^verbatim>\<open>do_execute\<close> gets a
  \<^verbatim>\<open>HandleSet\<close> from \<^verbatim>\<open>get_result_set()\<close>: the groundings the search reports, in the order
  it reports them, are inserted one by one into the result set.
\<close>

definition collect_groundings :: "Handle list \<Rightarrow> HandleSet" where
  "collect_groundings xs = fold finsert xs {||}"

section \<open>Example instances\<close>

text \<open>
  Collaborators whose search finds nothing and sees no optional clause, whose variable
  extraction records the handles it is given, and whose instantiator returns the template
  as it is. Type 1 plays \<^verbatim>\<open>BIND_LINK\<close>, type 2 \<^verbatim>\<open>SET_LINK\<close>.
\<close>

definition quiet_collaborators :: "(string, HandleSeq) collaborators" where
  "quiet_collaborators =
     \<lparr>isA = (\<lambda>t u. t = u),
      getTypeName =
        (\<lambda>t. if t = 1 then ''BindLink'' else if t = 2 then ''SetLink'' else ''Atom''),
      BIND_LINK = 1,
      SET_LINK = 2,
      find_variables = (\<lambda>vl b. Inr (vl @ [b])),
      init_scoped_variables = (\<lambda>d. Inr [d]),
      unbundle_clauses = (\<lambda>this b. Inr this),
      common_init = Inr,
      setup_components = Inr,
      satisfy = (\<lambda>this impl h. Inr (impl, h)),
      inst_execute = (\<lambda>impl t silent h. Inr (ValueCast t, h))\<rparr>"

text \<open>Collaborators whose search throws.\<close>

definition failing_collaborators :: "(string, HandleSeq) collaborators" where
  "failing_collaborators =
     quiet_collaborators\<lparr>satisfy := (\<lambda>this impl h. Inl ''unresolvable type constraint'')\<rparr>"

text \<open>Collaborators whose search reports the groundings \<open>xs\<close>, in this order.\<close>

definition reporting_collaborators :: "Handle list \<Rightarrow> (string, HandleSeq) collaborators" where
  "reporting_collaborators xs =
     quiet_collaborators
       \<lparr>satisfy := (\<lambda>this impl h. Inr (impl\<lparr>result_set := collect_groundings xs\<rparr>, h))\<rparr>"

text \<open>A search that does nothing but throw the atom space its implicator was built on.\<close>

definition store_probe ::
  "'v BindLink \<Rightarrow> DefaultImplicator \<Rightarrow> heap \<Rightarrow> AtomSpacePtr + DefaultImplicator \<times> heap" where
  "store_probe this impl h = Inl (impl_as impl)"

definition empty_heap :: heap where
  "empty_heap = (\<lambda>a. [])"

definition alice :: Handle where
  "alice = Some (Node 5 ''alice'')"

definition bob :: Handle where
  "bob = Some (Node 5 ''bob'')"

definition var_x :: Handle where
  "var_x = Some (Node 6 ''$x'')"

definition var_y :: Handle where
  "var_y = Some (Node 6 ''$y'')"

definition nobody_knows :: Handle where
  "nobody_knows = Some (Node 5 ''nobody-knows'')"

definition likes_x_pizza :: Handle where
  "likes_x_pizza = Some (Link 4 [Some (Node 5 ''likes''), var_x, Some (Node 5 ''pizza'')])"

definition knows_x_y :: Handle where
  "knows_x_y = Some (Link 4 [Some (Node 5 ''knows''), var_x, var_y])"

text \<open>An object as the base-class constructor leaves it: only type and outgoing set.\<close>

definition blank_link :: "Type \<Rightarrow> HandleSeq \<Rightarrow> HandleSeq BindLink" where
  "blank_link t oset =
     \<lparr>atom_type = t, outgoing = oset, vardecl = None, body = None, implicand = None,
      varlist = [], pat = \<lparr>redex_name = [], mandatory = [], optionals = []\<rparr>,
      virtual = [], components = [], atom_space = None\<rparr>"

text \<open>One mandatory clause: who likes pizza.\<close>

definition likes_link :: "HandleSeq BindLink" where
  "likes_link =
     \<lparr>atom_type = 1, outgoing = [likes_x_pizza, var_x],
      vardecl = None, body = likes_x_pizza, implicand = var_x,
      varlist = [var_x],
      pat = \<lparr>redex_name = ''anonymous BindLink'', mandatory = [likes_x_pizza],
             optionals = []\<rparr>,
      virtual = [], components = [[likes_x_pizza]], atom_space = Some 0\<rparr>"

text \<open>No mandatory clause and one optional clause: nobody knows anybody.\<close>

definition absence_link :: "HandleSeq BindLink" where
  "absence_link =
     \<lparr>atom_type = 1, outgoing = [knows_x_y, nobody_knows],
      vardecl = None, body = knows_x_y, implicand = nobody_knows,
      varlist = [var_x, var_y],
      pat = \<lparr>redex_name = ''anonymous BindLink'', mandatory = [], optionals = [knows_x_y]\<rparr>,
      virtual = [], components = [], atom_space = Some 0\<rparr>"

text \<open>Two mandatory clauses that share no variable: two components.\<close>

definition likes_y_pizza :: Handle where
  "likes_y_pizza = Some (Link 4 [Some (Node 5 ''likes''), var_y, Some (Node 5 ''pizza'')])"

definition disconnected_link :: "HandleSeq BindLink" where
  "disconnected_link =
     \<lparr>atom_type = 1,
      outgoing = [Some (Link 3 [likes_x_pizza, likes_y_pizza]), Some (Link 7 [var_x, var_y])],
      vardecl = None, body = Some (Link 3 [likes_x_pizza, likes_y_pizza]),
      implicand = Some (Link 7 [var_x, var_y]),
      varlist = [var_x, var_y],
      pat = \<lparr>redex_name = ''anonymous BindLink'',
             mandatory = [likes_x_pizza, likes_y_pizza], optionals = []\<rparr>,
      virtual = [], components = [[likes_x_pizza], [likes_y_pizza]], atom_space = Some 0\<rparr>"

section \<open>Unfolding the operations\<close>

lemma do_execute_cases:
  "do_execute env this as silent h =
     (case satisfy env this
             ((DefaultImplicator_new (if as = None then atom_space this else as))
                \<lparr>impl_implicand := implicand this\<rparr>) h of
        Inl x \<Rightarrow> Inl (Collaborator x)
      | Inr (impl1, h1) \<Rightarrow>
          if 0 < fcard (result_set impl1) then Inr (result_set impl1, h1)
          else if 0 = length (mandatory (pat this)) \<and> 0 < length (optionals (pat this))
                  \<and> \<not> optionals_present impl1
          then (case inst_execute env impl1 (impl_implicand impl1) True h1 of
                  Inl x \<Rightarrow> Inl (Collaborator x)
                | Inr (v, h2) \<Rightarrow> Inr ({|HandleCast v|}, h2))
          else Inr ({||}, h1))"
  by (simp add: do_execute_def)

lemma do_execute_failure_origin:
  "do_execute env this as silent h = Inl e \<Longrightarrow> \<exists>x. e = Collaborator x"
  by (auto simp add: do_execute_cases split: sum.splits prod.splits if_splits)

lemma extract_variables_size_error:
  "length oset < 2 \<or> 3 < length oset \<Longrightarrow>
   extract_variables env this oset =
     Inl (InvalidParamException ''Expecting an outgoing set size of at most two, got %d''
            [ArgSize (length oset)])"
  by (simp add: extract_variables_def)

lemma extract_variables_two:
  "length oset = 2 \<Longrightarrow>
   extract_variables env this oset =
     (case find_variables env (varlist this) (oset ! 0) of
        Inl x \<Rightarrow> Inl (Collaborator x)
      | Inr vl \<Rightarrow> Inr (this\<lparr>body := oset ! 0, implicand := oset ! 1, varlist := vl\<rparr>))"
  by (simp add: extract_variables_def)

lemma extract_variables_three:
  "length oset = 3 \<Longrightarrow>
   extract_variables env this oset =
     (case init_scoped_variables env (oset ! 0) of
        Inl x \<Rightarrow> Inl (Collaborator x)
      | Inr vl \<Rightarrow> Inr (this\<lparr>vardecl := oset ! 0, body := oset ! 1, implicand := oset ! 2,
                           varlist := vl\<rparr>))"
  by (simp add: extract_variables_def)

lemma init_bind_kind:
  "isA env (atom_type this) (BIND_LINK env) \<Longrightarrow>
   init env this =
     (case extract_variables env this (outgoing this) of
        Inl e \<Rightarrow> Inl e
      | Inr this1 \<Rightarrow>
     (case unbundle_clauses env this1 (body this1) of
        Inl x \<Rightarrow> Inl (Collaborator x)
      | Inr this2 \<Rightarrow>
     (case common_init env this2 of
        Inl x \<Rightarrow> Inl (Collaborator x)
      | Inr this3 \<Rightarrow>
     (case setup_components env this3 of
        Inl x \<Rightarrow> Inl (Collaborator x)
      | Inr this4 \<Rightarrow>
          Inr (this4\<lparr>pat := (pat this4)\<lparr>redex_name := ''anonymous BindLink''\<rparr>\<rparr>)))))"
  by (simp add: init_def)

lemma fold_finsert: "fold finsert xs A = fset_of_list xs |\<union>| A"
  by (induction xs arbitrary: A) auto

lemma collect_groundings_permute:
  assumes "mset xs = mset ys"
  shows "collect_groundings xs = collect_groundings ys"
proof -
  from assms have "set xs = set ys" by (rule mset_eq_setD)
  then have "fset_of_list xs = fset_of_list ys"
    by (simp add: fset_of_list.rep_eq fset_inject [symmetric])
  then show ?thesis by (simp add: collect_groundings_def fold_finsert)
qed

lemma add_atom_twice: "add_atom (fst (add_atom s r)) r = add_atom s r"
  by (cases r) auto

lemma add_atom_distinct: "distinct s \<Longrightarrow> distinct (fst (add_atom s r))"
  by (cases r) auto

lemma execute_explicit_store:
  "do_execute env this (Some a) silent h = Inr (gs, h1) \<Longrightarrow>
   execute env this (Some a) silent h =
     Inr (AtomValue (UnorderedLink (SET_LINK env) gs),
          h1(a := fst (add_atom (h1 a) (Some (UnorderedLink (SET_LINK env) gs)))))"
  by (simp add: execute_def createUnorderedLink_def)

text \<open>
  \<^verbatim>\<open>execute\<close> calls \<^verbatim>\<open>as->add_atom\<close> on the pointer it was given, not on the one
  \<^verbatim>\<open>do_execute\<close> resolved: with a null \<^verbatim>\<open>as\<close> the search may run on the default atom space,
  and the insertion then dereferences null.
\<close>

lemma execute_null_store:
  "do_execute env this None silent h = Inr r \<Longrightarrow>
   execute env this None silent h = Inl NullPointerDereference"
  by (cases r) (simp add: execute_def)


section \<open>Zero matches\<close>

text \<open>
  C1. When the search returns with an empty result set, the pattern has no mandatory clause
  and at least one optional clause, and the implicator saw no optional clause present,
  \<^verbatim>\<open>do_execute\<close> instantiates the implicand once (with \<^verbatim>\<open>silent\<close> true) and returns the
  singleton set that holds the instantiation, cast to a handle.
\<close>

theorem do_execute_absence_query:
  assumes "satisfy env this
             ((DefaultImplicator_new (if as = None then atom_space this else as))
                \<lparr>impl_implicand := implicand this\<rparr>) h = Inr (impl1, h1)"
    and "fcard (result_set impl1) = 0"
    and "length (mandatory (pat this)) = 0"
    and "0 < length (optionals (pat this))"
    and "\<not> optionals_present impl1"
    and "inst_execute env impl1 (impl_implicand impl1) True h1 = Inr (v, h2)"
  shows "do_execute env this as silent h = Inr ({|HandleCast v|}, h2)"
  using assms by (simp add: do_execute_cases fcard_fempty)

theorem do_execute_absence_query_witness:
  "do_execute quiet_collaborators absence_link None False empty_heap
     = Inr ({|nobody_knows|}, empty_heap)"
  using do_execute_absence_query [of quiet_collaborators absence_link None empty_heap
      "(DefaultImplicator_new (Some 0))\<lparr>impl_implicand := nobody_knows\<rparr>"
      empty_heap "AtomValue (Node 5 ''nobody-knows'')" empty_heap False]
  by (simp add: quiet_collaborators_def absence_link_def DefaultImplicator_new_def
        nobody_knows_def fcard_fempty)

text \<open>
  C2. When the search returns with an empty result set and the absence condition fails (in
  particular when the pattern has a mandatory clause), \<^verbatim>\<open>do_execute\<close> returns the empty
  set, normally.
\<close>

theorem do_execute_no_match:
  assumes "satisfy env this
             ((DefaultImplicator_new (if as = None then atom_space this else as))
                \<lparr>impl_implicand := implicand this\<rparr>) h = Inr (impl1, h1)"
    and "fcard (result_set impl1) = 0"
    and "0 < length (mandatory (pat this)) \<or> length (optionals (pat this)) = 0
           \<or> optionals_present impl1"
  shows "do_execute env this as silent h = Inr ({||}, h1)"
  using assms by (auto simp add: do_execute_cases fcard_fempty)

theorem do_execute_no_match_witness:
  "0 < length (mandatory (pat likes_link)) \<and>
   do_execute quiet_collaborators likes_link (Some 0) False empty_heap
     = Inr ({||}, empty_heap)"
  using do_execute_no_match [of quiet_collaborators likes_link "Some 0" empty_heap
      "(DefaultImplicator_new (Some 0))\<lparr>impl_implicand := var_x\<rparr>" empty_heap False]
  by (simp add: quiet_collaborators_def likes_link_def DefaultImplicator_new_def
        fcard_fempty)

section \<open>Errors of the search\<close>

text \<open>
  C3, as the code has it. \<^verbatim>\<open>do_execute\<close> never reads \<^verbatim>\<open>silent\<close> and has no handler: an
  exception of the search reaches the caller whether \<^verbatim>\<open>silent\<close> is true or false, and the
  outcome of a run is the same for both.
\<close>

theorem do_execute_matcher_error_propagates:
  "(satisfy env this
      ((DefaultImplicator_new (if as = None then atom_space this else as))
         \<lparr>impl_implicand := implicand this\<rparr>) h = Inl x
    \<longrightarrow> do_execute env this as silent h = Inl (Collaborator x))
   \<and> do_execute env this as True h = do_execute env this as False h"
proof (intro conjI impI)
  assume "satisfy env this
      ((DefaultImplicator_new (if as = None then atom_space this else as))
         \<lparr>impl_implicand := implicand this\<rparr>) h = Inl x"
  then show "do_execute env this as silent h = Inl (Collaborator x)"
    by (simp add: do_execute_cases)
next
  show "do_execute env this as True h = do_execute env this as False h"
    by (simp only: do_execute_cases)
qed

theorem do_execute_matcher_error_propagates_witness:
  "do_execute failing_collaborators likes_link (Some 0) True empty_heap
       = Inl (Collaborator ''unresolvable type constraint'')
   \<and> do_execute failing_collaborators likes_link (Some 0) False empty_heap
       = Inl (Collaborator ''unresolvable type constraint'')"
proof -
  have thrown: "satisfy failing_collaborators likes_link
      ((DefaultImplicator_new (if Some 0 = None then atom_space likes_link else Some 0))
         \<lparr>impl_implicand := implicand likes_link\<rparr>) empty_heap
      = Inl ''unresolvable type constraint''"
    by (simp add: failing_collaborators_def quiet_collaborators_def)
  show ?thesis
    using thrown
      do_execute_matcher_error_propagates [of failing_collaborators likes_link "Some 0"
        empty_heap "''unresolvable type constraint''" True]
      do_execute_matcher_error_propagates [of failing_collaborators likes_link "Some 0"
        empty_heap "''unresolvable type constraint''" False]
    by blast
qed

text \<open>
  C3 as stated fails: with \<^verbatim>\<open>silent\<close> true and a search that throws, \<^verbatim>\<open>do_execute\<close>
  throws; it does not return the empty set a search without matches gives.
\<close>

theorem silent_does_not_suppress_counterexample:
  "do_execute failing_collaborators likes_link (Some 0) True empty_heap
     = Inl (Collaborator ''unresolvable type constraint'')
   \<and> do_execute failing_collaborators likes_link (Some 0) True empty_heap
     \<noteq> Inr ({||}, empty_heap)
   \<and> do_execute quiet_collaborators likes_link (Some 0) True empty_heap
     = Inr ({||}, empty_heap)"
  by (simp add: do_execute_cases failing_collaborators_def quiet_collaborators_def
        likes_link_def DefaultImplicator_new_def fcard_fempty)


section \<open>Construction\<close>

text \<open>
  C4. \<^verbatim>\<open>extract_variables\<close> on an outgoing set of a size other than 2 or 3 throws the
  \<^verbatim>\<open>InvalidParamException\<close> whose argument is that size, and so does \<^verbatim>\<open>init\<close> on an object
  of a bind kind with such an outgoing set. On size 2 or 3 \<^verbatim>\<open>extract_variables\<close> throws no
  \<^verbatim>\<open>InvalidParamException\<close>.
\<close>

theorem extract_variables_arity:
  "(length oset \<noteq> 2 \<and> length oset \<noteq> 3 \<longrightarrow>
      extract_variables env this oset =
        Inl (InvalidParamException ''Expecting an outgoing set size of at most two, got %d''
               [ArgSize (length oset)])
      \<and> (isA env (atom_type this) (BIND_LINK env) \<and> outgoing this = oset \<longrightarrow>
           init env this =
             Inl (InvalidParamException
                    ''Expecting an outgoing set size of at most two, got %d''
                    [ArgSize (length oset)])))
   \<and> (length oset = 2 \<or> length oset = 3 \<longrightarrow>
        extract_variables env this oset \<noteq> Inl (InvalidParamException fmt args))"
proof (intro conjI impI)
  assume "length oset \<noteq> 2 \<and> length oset \<noteq> 3"
  then have "length oset < 2 \<or> 3 < length oset" by arith
  then show err: "extract_variables env this oset =
        Inl (InvalidParamException ''Expecting an outgoing set size of at most two, got %d''
               [ArgSize (length oset)])"
    by (rule extract_variables_size_error)
  assume "isA env (atom_type this) (BIND_LINK env) \<and> outgoing this = oset"
  then show "init env this =
        Inl (InvalidParamException ''Expecting an outgoing set size of at most two, got %d''
               [ArgSize (length oset)])"
    using err by (simp add: init_bind_kind)
next
  assume "length oset = 2 \<or> length oset = 3"
  then show "extract_variables env this oset \<noteq> Inl (InvalidParamException fmt args)"
    by (auto simp add: extract_variables_two extract_variables_three split: sum.splits)
qed

theorem extract_variables_arity_witness:
  "extract_variables quiet_collaborators (blank_link 1 [likes_x_pizza]) [likes_x_pizza] =
     Inl (InvalidParamException ''Expecting an outgoing set size of at most two, got %d''
            [ArgSize 1])
   \<and> init quiet_collaborators (blank_link 1 [likes_x_pizza]) =
     Inl (InvalidParamException ''Expecting an outgoing set size of at most two, got %d''
            [ArgSize 1])
   \<and> extract_variables quiet_collaborators (blank_link 1 [likes_x_pizza, var_x])
        [likes_x_pizza, var_x] \<noteq>
     Inl (InvalidParamException ''Expecting an outgoing set size of at most two, got %d''
            [ArgSize 2])"
  using extract_variables_arity [of "[likes_x_pizza]" quiet_collaborators
      "blank_link 1 [likes_x_pizza]"]
    extract_variables_arity [of "[likes_x_pizza, var_x]" quiet_collaborators
      "blank_link 1 [likes_x_pizza, var_x]"
      "''Expecting an outgoing set size of at most two, got %d''" "[ArgSize 2]"]
  by (simp add: quiet_collaborators_def blank_link_def)

text \<open>
  C5. On an outgoing set of size 2, when the discovery of free variables in its first
  member returns, \<^verbatim>\<open>extract_variables\<close> sets the body to member 0, the implicand to member
  1 and the variables to what the discovery found, and leaves the declaration alone. On
  size 3, when the parsing of member 0 as a declaration returns, it sets the declaration
  to member 0, the body to member 1, the implicand to member 2 and the variables to the
  parsed ones.
\<close>

theorem extract_variables_decomposition:
  "(length oset = 2 \<and> find_variables env (varlist this) (oset ! 0) = Inr vl \<longrightarrow>
      extract_variables env this oset =
        Inr (this\<lparr>body := oset ! 0, implicand := oset ! 1, varlist := vl\<rparr>))
   \<and> (length oset = 3 \<and> init_scoped_variables env (oset ! 0) = Inr vl \<longrightarrow>
      extract_variables env this oset =
        Inr (this\<lparr>vardecl := oset ! 0, body := oset ! 1, implicand := oset ! 2,
                  varlist := vl\<rparr>))"
  by (simp add: extract_variables_two extract_variables_three)

theorem extract_variables_decomposition_witness:
  "extract_variables quiet_collaborators (blank_link 1 [likes_x_pizza, var_x])
     [likes_x_pizza, var_x]
     = Inr ((blank_link 1 [likes_x_pizza, var_x])
              \<lparr>body := likes_x_pizza, implicand := var_x, varlist := [likes_x_pizza]\<rparr>)
   \<and> extract_variables quiet_collaborators (blank_link 1 [var_x, likes_x_pizza, var_x])
     [var_x, likes_x_pizza, var_x]
     = Inr ((blank_link 1 [var_x, likes_x_pizza, var_x])
              \<lparr>vardecl := var_x, body := likes_x_pizza, implicand := var_x,
                varlist := [var_x]\<rparr>)"
  using extract_variables_decomposition [of "[likes_x_pizza, var_x]" quiet_collaborators
      "blank_link 1 [likes_x_pizza, var_x]" "[likes_x_pizza]"]
    extract_variables_decomposition [of "[var_x, likes_x_pizza, var_x]" quiet_collaborators
      "blank_link 1 [var_x, likes_x_pizza, var_x]" "[var_x]"]
  by (simp add: quiet_collaborators_def blank_link_def)

text \<open>
  C8. \<^verbatim>\<open>init\<close> on an object whose type is not a bind kind throws the
  \<^verbatim>\<open>InvalidParamException\<close> "Expecting a BindLink" whose argument is the name of that type;
  on an object of a bind kind it does not throw that exception.
\<close>

theorem init_type_check:
  "(\<not> isA env (atom_type this) (BIND_LINK env) \<longrightarrow>
      init env this =
        Inl (InvalidParamException ''Expecting a BindLink, got %s''
               [ArgString (getTypeName env (atom_type this))]))
   \<and> (isA env (atom_type this) (BIND_LINK env) \<longrightarrow>
      init env this \<noteq> Inl (InvalidParamException ''Expecting a BindLink, got %s'' args))"
proof (intro conjI impI)
  assume "\<not> isA env (atom_type this) (BIND_LINK env)"
  then show "init env this =
        Inl (InvalidParamException ''Expecting a BindLink, got %s''
               [ArgString (getTypeName env (atom_type this))])"
    by (simp add: init_def)
next
  assume ok: "isA env (atom_type this) (BIND_LINK env)"
  have "extract_variables env this (outgoing this) \<noteq>
          Inl (InvalidParamException ''Expecting a BindLink, got %s'' args)"
    by (auto simp add: extract_variables_def Let_def split: sum.splits)
  then show "init env this \<noteq> Inl (InvalidParamException ''Expecting a BindLink, got %s'' args)"
    using ok by (auto simp add: init_bind_kind split: sum.splits)
qed

theorem init_type_check_witness:
  "init quiet_collaborators (blank_link 2 [likes_x_pizza, var_x]) =
     Inl (InvalidParamException ''Expecting a BindLink, got %s'' [ArgString ''SetLink''])
   \<and> init quiet_collaborators (blank_link 1 [likes_x_pizza, var_x]) \<noteq>
     Inl (InvalidParamException ''Expecting a BindLink, got %s'' [ArgString ''BindLink''])
   \<and> init quiet_collaborators (blank_link 1 [likes_x_pizza, var_x]) =
     Inr ((blank_link 1 [likes_x_pizza, var_x])
            \<lparr>body := likes_x_pizza, implicand := var_x, varlist := [likes_x_pizza],
              pat := \<lparr>redex_name = ''anonymous BindLink'', mandatory = [], optionals = []\<rparr>\<rparr>)"
  using init_type_check [of quiet_collaborators "blank_link 2 [likes_x_pizza, var_x]"]
    init_type_check [of quiet_collaborators "blank_link 1 [likes_x_pizza, var_x]"
      "[ArgString ''BindLink'']"]
  by (simp add: quiet_collaborators_def blank_link_def init_def extract_variables_def)

section \<open>The atom space of a run and the connectivity check\<close>

text \<open>
  C6, as the code has it. A null \<^verbatim>\<open>as\<close> is replaced by the default atom space of the
  object, so a call with null behaves as the call with the default; the implicator is built
  on the explicit atom space when there is one, whatever the default is, and on the
  default (null or not) otherwise. \<^verbatim>\<open>do_execute\<close> makes no check that an atom space exists:
  it throws no exception of its own and dereferences nothing.
\<close>

theorem do_execute_store_resolution:
  "do_execute env this None silent h = do_execute env this (atom_space this) silent h
   \<and> do_execute (penv\<lparr>satisfy := store_probe\<rparr>) this (Some a) silent h
       = Inl (Collaborator (Some a))
   \<and> do_execute (penv\<lparr>satisfy := store_probe\<rparr>) this None silent h
       = Inl (Collaborator (atom_space this))
   \<and> do_execute env this as silent h \<noteq> Inl (InvalidParamException fmt args)
   \<and> do_execute env this as silent h \<noteq> Inl NullPointerDereference"
proof (intro conjI)
  show "do_execute env this None silent h = do_execute env this (atom_space this) silent h"
    by (simp add: do_execute_cases)
  show "do_execute (penv\<lparr>satisfy := store_probe\<rparr>) this (Some a) silent h
          = Inl (Collaborator (Some a))"
    by (simp add: do_execute_cases store_probe_def DefaultImplicator_new_def)
  show "do_execute (penv\<lparr>satisfy := store_probe\<rparr>) this None silent h
          = Inl (Collaborator (atom_space this))"
    by (simp add: do_execute_cases store_probe_def DefaultImplicator_new_def)
  show "do_execute env this as silent h \<noteq> Inl (InvalidParamException fmt args)"
    using do_execute_failure_origin [of env this as silent h] by auto
  show "do_execute env this as silent h \<noteq> Inl NullPointerDereference"
    using do_execute_failure_origin [of env this as silent h] by auto
qed

text \<open>
  C6 as stated fails: with a null \<^verbatim>\<open>as\<close> and a null default atom space, and a search that
  returns without matches, \<^verbatim>\<open>do_execute\<close> returns the empty set; it throws nothing.
\<close>

theorem no_store_counterexample:
  "atom_space (blank_link 1 [likes_x_pizza, var_x]) = None
   \<and> do_execute quiet_collaborators (blank_link 1 [likes_x_pizza, var_x]) None False
        empty_heap = Inr ({||}, empty_heap)"
  by (simp add: do_execute_cases quiet_collaborators_def blank_link_def
        DefaultImplicator_new_def fcard_fempty)

text \<open>
  C7. \<^verbatim>\<open>do_conn_check\<close> is the constant false, so \<^verbatim>\<open>do_execute\<close> never throws the
  exception for disconnected components; on a pattern with several components and no
  virtual clause, a search that finds groundings has them returned.
\<close>

theorem do_execute_no_connectivity_error:
  "do_execute env this as silent h \<noteq>
     Inl (InvalidParamException ''BindLink consists of multiple disconnected components!'' args)
   \<and> (0 = length (virtual this) \<and> 1 < length (components this)
        \<and> satisfy env this
             ((DefaultImplicator_new (if as = None then atom_space this else as))
                \<lparr>impl_implicand := implicand this\<rparr>) h = Inr (impl1, h1)
        \<and> 0 < fcard (result_set impl1)
      \<longrightarrow> do_execute env this as silent h = Inr (result_set impl1, h1))"
proof (intro conjI impI)
  show "do_execute env this as silent h \<noteq>
     Inl (InvalidParamException ''BindLink consists of multiple disconnected components!'' args)"
    using do_execute_failure_origin [of env this as silent h] by auto
next
  assume "0 = length (virtual this) \<and> 1 < length (components this)
        \<and> satisfy env this
             ((DefaultImplicator_new (if as = None then atom_space this else as))
                \<lparr>impl_implicand := implicand this\<rparr>) h = Inr (impl1, h1)
        \<and> 0 < fcard (result_set impl1)"
  then show "do_execute env this as silent h = Inr (result_set impl1, h1)"
    by (simp add: do_execute_cases)
qed

theorem do_execute_no_connectivity_error_witness:
  "length (components disconnected_link) = 2 \<and> virtual disconnected_link = []
   \<and> do_execute (reporting_collaborators [alice]) disconnected_link (Some 0) False empty_heap
       = Inr ({|alice|}, empty_heap)"
  using do_execute_no_connectivity_error [of "reporting_collaborators [alice]"
      disconnected_link "Some 0" False empty_heap "[]"
      "(DefaultImplicator_new (Some 0))
         \<lparr>impl_implicand := Some (Link 7 [var_x, var_y]), result_set := {|alice|}\<rparr>"
      empty_heap]
  by (simp add: reporting_collaborators_def quiet_collaborators_def disconnected_link_def
        DefaultImplicator_new_def collect_groundings_def fcard_finsert_if fcard_fempty)

section \<open>Materialising the result\<close>

text \<open>
  What \<^verbatim>\<open>execute\<close> does when it is given an atom space. Whenever \<^verbatim>\<open>execute\<close> returns, it
  was given an atom space, \<^verbatim>\<open>do_execute\<close> returned a grounding set, and the value returned
  is the unordered link of type \<^verbatim>\<open>SET_LINK\<close> over that set, never null, held by the atom
  space at that address in the heap returned. And \<^verbatim>\<open>execute\<close> does return so whenever it
  is given an atom space and \<^verbatim>\<open>do_execute\<close> returns: with the empty grounding set, too,
  where the link is the empty set link.
\<close>

theorem execute_inserts_set_link:
  "(execute env this as silent h = Inr (v, h2) \<longrightarrow>
      (\<exists>a gs h1. as = Some a \<and> do_execute env this as silent h = Inr (gs, h1)
         \<and> v = AtomValue (UnorderedLink (SET_LINK env) gs)
         \<and> UnorderedLink (SET_LINK env) gs \<in> set (h2 a)))
   \<and> (do_execute env this (Some a) silent h = Inr (gs, h1) \<longrightarrow>
        execute env this (Some a) silent h =
          Inr (AtomValue (UnorderedLink (SET_LINK env) gs),
               h1(a := fst (add_atom (h1 a) (Some (UnorderedLink (SET_LINK env) gs)))))
        \<and> UnorderedLink (SET_LINK env) gs
            \<in> set (fst (add_atom (h1 a) (Some (UnorderedLink (SET_LINK env) gs)))))
   \<and> (do_execute env this (Some a) silent h = Inr ({||}, h1) \<longrightarrow>
        execute env this (Some a) silent h =
          Inr (AtomValue (UnorderedLink (SET_LINK env) {||}),
               h1(a := fst (add_atom (h1 a) (Some (UnorderedLink (SET_LINK env) {||}))))))"
proof (intro conjI impI)
  assume ex: "execute env this as silent h = Inr (v, h2)"
  then obtain gs h1 where run: "do_execute env this as silent h = Inr (gs, h1)"
    by (auto simp add: execute_def split: sum.splits)
  from ex run obtain a where a: "as = Some a"
    by (cases as) (auto simp add: execute_def)
  from ex run a have "v = AtomValue (UnorderedLink (SET_LINK env) gs)"
    and "UnorderedLink (SET_LINK env) gs \<in> set (h2 a)"
    by (auto simp add: execute_explicit_store)
  with run a show "\<exists>a gs h1. as = Some a \<and> do_execute env this as silent h = Inr (gs, h1)
         \<and> v = AtomValue (UnorderedLink (SET_LINK env) gs)
         \<and> UnorderedLink (SET_LINK env) gs \<in> set (h2 a)"
    by blast
next
  assume "do_execute env this (Some a) silent h = Inr (gs, h1)"
  then show "execute env this (Some a) silent h =
          Inr (AtomValue (UnorderedLink (SET_LINK env) gs),
               h1(a := fst (add_atom (h1 a) (Some (UnorderedLink (SET_LINK env) gs)))))"
    by (rule execute_explicit_store)
next
  show "UnorderedLink (SET_LINK env) gs
            \<in> set (fst (add_atom (h1 a) (Some (UnorderedLink (SET_LINK env) gs))))"
    by simp
next
  assume "do_execute env this (Some a) silent h = Inr ({||}, h1)"
  then show "execute env this (Some a) silent h =
          Inr (AtomValue (UnorderedLink (SET_LINK env) {||}),
               h1(a := fst (add_atom (h1 a) (Some (UnorderedLink (SET_LINK env) {||})))))"
    by (rule execute_explicit_store)
qed

theorem execute_inserts_set_link_witness:
  "execute quiet_collaborators likes_link (Some 0) False empty_heap
     = Inr (AtomValue (UnorderedLink 2 {||}), empty_heap(0 := [UnorderedLink 2 {||}]))
   \<and> execute (reporting_collaborators [alice]) likes_link (Some 0) False empty_heap
     = Inr (AtomValue (UnorderedLink 2 {|alice|}),
            empty_heap(0 := [UnorderedLink 2 {|alice|}]))
   \<and> (\<exists>a gs h1. Some 0 = Some a
         \<and> do_execute quiet_collaborators likes_link (Some 0) False empty_heap = Inr (gs, h1)
         \<and> AtomValue (UnorderedLink 2 {||})
             = AtomValue (UnorderedLink (SET_LINK quiet_collaborators) gs)
         \<and> UnorderedLink (SET_LINK quiet_collaborators) gs
             \<in> set ((empty_heap(0 := [UnorderedLink 2 {||}])) a))"
proof -
  have quiet: "do_execute quiet_collaborators likes_link (Some 0) False empty_heap
                 = Inr ({||}, empty_heap)"
    by (simp add: do_execute_cases quiet_collaborators_def likes_link_def
          DefaultImplicator_new_def fcard_fempty)
  have found: "do_execute (reporting_collaborators [alice]) likes_link (Some 0) False
                 empty_heap = Inr ({|alice|}, empty_heap)"
    by (simp add: do_execute_cases reporting_collaborators_def quiet_collaborators_def
          likes_link_def DefaultImplicator_new_def collect_groundings_def
          fcard_finsert_if fcard_fempty)
  have e1: "execute quiet_collaborators likes_link (Some 0) False empty_heap
     = Inr (AtomValue (UnorderedLink 2 {||}), empty_heap(0 := [UnorderedLink 2 {||}]))"
    using quiet
      execute_inserts_set_link [of quiet_collaborators likes_link "Some 0" False empty_heap
        "NullValue" empty_heap 0 "{||}" empty_heap]
    by (simp add: quiet_collaborators_def empty_heap_def)
  have e2: "execute (reporting_collaborators [alice]) likes_link (Some 0) False empty_heap
     = Inr (AtomValue (UnorderedLink 2 {|alice|}),
            empty_heap(0 := [UnorderedLink 2 {|alice|}]))"
    using found
      execute_inserts_set_link [of "reporting_collaborators [alice]" likes_link "Some 0"
        False empty_heap "NullValue" empty_heap 0 "{|alice|}" empty_heap]
    by (simp add: reporting_collaborators_def quiet_collaborators_def empty_heap_def)
  show ?thesis
    using e1 e2
      execute_inserts_set_link [of quiet_collaborators likes_link "Some 0" False empty_heap
        "AtomValue (UnorderedLink 2 {||})" "empty_heap(0 := [UnorderedLink 2 {||}])"
        0 "{||}" empty_heap]
    by simp
qed

text \<open>
  C10 fails on the code when \<^verbatim>\<open>execute\<close> is called without an atom space on an object that
  has a default one. \<^verbatim>\<open>do_execute\<close> falls back to the default atom space (line 137) and
  returns its grounding set, empty or not; \<^verbatim>\<open>execute\<close> builds the set link and then calls
  \<^verbatim>\<open>add_atom\<close> through the null pointer it was given (line 206): nothing is inserted and
  nothing is returned.
\<close>

theorem execute_null_store_with_default:
  "atom_space likes_link = Some 0
   \<and> do_execute quiet_collaborators likes_link None False empty_heap
       = Inr ({||}, empty_heap)
   \<and> execute quiet_collaborators likes_link None False empty_heap
       = Inl NullPointerDereference
   \<and> do_execute (reporting_collaborators [alice]) likes_link None False empty_heap
       = Inr ({|alice|}, empty_heap)
   \<and> execute (reporting_collaborators [alice]) likes_link None False empty_heap
       = Inl NullPointerDereference"
proof -
  have quiet: "do_execute quiet_collaborators likes_link None False empty_heap
                 = Inr ({||}, empty_heap)"
    by (simp add: do_execute_cases quiet_collaborators_def likes_link_def
          DefaultImplicator_new_def fcard_fempty)
  have found: "do_execute (reporting_collaborators [alice]) likes_link None False
                 empty_heap = Inr ({|alice|}, empty_heap)"
    by (simp add: do_execute_cases reporting_collaborators_def quiet_collaborators_def
          likes_link_def DefaultImplicator_new_def collect_groundings_def
          fcard_finsert_if fcard_fempty)
  have "atom_space likes_link = Some 0"
    by (simp add: likes_link_def)
  moreover have "execute quiet_collaborators likes_link None False empty_heap
       = Inl NullPointerDereference"
    using quiet by (simp add: execute_def)
  moreover have "execute (reporting_collaborators [alice]) likes_link None False empty_heap
       = Inl NullPointerDereference"
    using found by (simp add: execute_def)
  ultimately show ?thesis
    using quiet found by simp
qed

text \<open>
  C9, on the atom space and the unordered link as the spec describes them. Reporting the
  same groundings in another order gives the same result set, hence the same set link and
  the same outcome of its insertion; inserting a handle a second time returns what the
  first insertion returned and leaves the atom space as the first left it, and insertion
  keeps an atom space free of duplicates. For \<^verbatim>\<open>execute\<close>: two runs whose searches reported
  permuted groundings return the same value and heap; and a second run whose search
  reports the same set and leaves the heap alone returns the value of the first and
  changes nothing.
\<close>

theorem materialize_order_independent_idempotent:
  "(mset xs = mset ys \<longrightarrow>
      createUnorderedLink (collect_groundings xs) t
        = createUnorderedLink (collect_groundings ys) t
      \<and> add_atom s (createUnorderedLink (collect_groundings xs) t)
        = add_atom s (createUnorderedLink (collect_groundings ys) t))
   \<and> add_atom (fst (add_atom s r)) r = add_atom s r
   \<and> (distinct s \<longrightarrow> distinct (fst (add_atom s r)))
   \<and> (mset xs = mset ys \<and> SET_LINK env = SET_LINK env'
        \<and> do_execute env this (Some a) silent h = Inr (collect_groundings xs, h1)
        \<and> do_execute env' this' (Some a) silent' h' = Inr (collect_groundings ys, h1)
      \<longrightarrow> execute env this (Some a) silent h = execute env' this' (Some a) silent' h')
   \<and> (do_execute env this (Some a) silent h = Inr (gs, h1)
        \<and> execute env this (Some a) silent h = Inr (v, h2)
        \<and> do_execute env this (Some a) silent h2 = Inr (gs, h2)
      \<longrightarrow> execute env this (Some a) silent h2 = Inr (v, h2))"
proof (intro conjI impI)
  assume "mset xs = mset ys"
  then have eq: "collect_groundings xs = collect_groundings ys"
    by (rule collect_groundings_permute)
  then show "createUnorderedLink (collect_groundings xs) t
        = createUnorderedLink (collect_groundings ys) t"
    by simp
  from eq show "add_atom s (createUnorderedLink (collect_groundings xs) t)
        = add_atom s (createUnorderedLink (collect_groundings ys) t)"
    by simp
next
  show "add_atom (fst (add_atom s r)) r = add_atom s r"
    by (rule add_atom_twice)
next
  assume "distinct s"
  then show "distinct (fst (add_atom s r))"
    by (rule add_atom_distinct)
next
  assume h: "mset xs = mset ys \<and> SET_LINK env = SET_LINK env'
        \<and> do_execute env this (Some a) silent h = Inr (collect_groundings xs, h1)
        \<and> do_execute env' this' (Some a) silent' h' = Inr (collect_groundings ys, h1)"
  then have "mset ys = mset xs" and ty: "SET_LINK env' = SET_LINK env"
    by simp_all
  then have eq: "collect_groundings ys = collect_groundings xs"
    by (intro collect_groundings_permute)
  from h have r1: "do_execute env this (Some a) silent h = Inr (collect_groundings xs, h1)"
    by (rule_tac conjunct1 [OF conjunct2 [OF conjunct2]])
  from h eq have r2: "do_execute env' this' (Some a) silent' h' = Inr (collect_groundings xs, h1)"
    by (simp only:)
  show "execute env this (Some a) silent h = execute env' this' (Some a) silent' h'"
    by (simp only: execute_explicit_store [OF r1] execute_explicit_store [OF r2] ty)
next
  assume h: "do_execute env this (Some a) silent h = Inr (gs, h1)
        \<and> execute env this (Some a) silent h = Inr (v, h2)
        \<and> do_execute env this (Some a) silent h2 = Inr (gs, h2)"
  let ?r = "Some (UnorderedLink (SET_LINK env) gs)"
  from h have r1: "do_execute env this (Some a) silent h = Inr (gs, h1)"
    and ex: "execute env this (Some a) silent h = Inr (v, h2)"
    and r2: "do_execute env this (Some a) silent h2 = Inr (gs, h2)"
    by blast+
  from ex have "Inr (AtomValue (UnorderedLink (SET_LINK env) gs),
                     h1(a := fst (add_atom (h1 a) ?r))) = (Inr (v, h2) :: 'a failure + _)"
    by (simp only: execute_explicit_store [OF r1])
  then have v: "v = AtomValue (UnorderedLink (SET_LINK env) gs)"
    and h2: "h2 = h1(a := fst (add_atom (h1 a) ?r))"
    by simp_all
  have "h2 a = fst (add_atom (h1 a) ?r)"
    by (subst h2) simp
  then have "fst (add_atom (h2 a) ?r) = h2 a"
    by (simp only: add_atom_twice)
  then have "h2(a := fst (add_atom (h2 a) ?r)) = h2"
    by (simp only: fun_upd_triv)
  then show "execute env this (Some a) silent h2 = Inr (v, h2)"
    by (simp only: execute_explicit_store [OF r2] v)
qed

theorem materialize_order_independent_idempotent_witness:
  "createUnorderedLink (collect_groundings [alice, bob]) 2
     = createUnorderedLink (collect_groundings [bob, alice]) 2
   \<and> add_atom [] (createUnorderedLink (collect_groundings [alice, bob]) 2)
     = add_atom [] (createUnorderedLink (collect_groundings [bob, alice]) 2)
   \<and> distinct (fst (add_atom [] alice))
   \<and> execute (reporting_collaborators [alice, bob]) likes_link (Some 0) False empty_heap
     = execute (reporting_collaborators [bob, alice]) likes_link (Some 0) True empty_heap
   \<and> execute (reporting_collaborators [alice, bob]) likes_link (Some 0) False
       (empty_heap(0 := [UnorderedLink 2 {|alice, bob|}]))
     = Inr (AtomValue (UnorderedLink 2 {|alice, bob|}),
            empty_heap(0 := [UnorderedLink 2 {|alice, bob|}]))"
proof -
  have ne: "alice \<noteq> bob" by (simp add: alice_def bob_def)
  have c1: "collect_groundings [alice, bob] = {|alice, bob|}"
    by (auto simp add: collect_groundings_def)
  have c2: "collect_groundings [bob, alice] = {|alice, bob|}"
    by (auto simp add: collect_groundings_def)
  have card: "fcard {|alice, bob|} = 2"
    using ne by (simp add: fcard_finsert_if fcard_fempty)
  have run: "\<And>zs silent h. collect_groundings zs = {|alice, bob|} \<Longrightarrow>
      do_execute (reporting_collaborators zs) likes_link (Some 0) silent h
        = Inr ({|alice, bob|}, h)"
    using card by (simp add: do_execute_cases reporting_collaborators_def)
  have sl: "SET_LINK (reporting_collaborators [alice, bob]) = 2"
    "SET_LINK (reporting_collaborators [bob, alice]) = 2"
    by (simp_all add: reporting_collaborators_def quiet_collaborators_def)
  have p: "mset [alice, bob] = mset [bob, alice]" by simp
  have first: "execute (reporting_collaborators [alice, bob]) likes_link (Some 0) False
       empty_heap
     = Inr (AtomValue (UnorderedLink 2 {|alice, bob|}),
            empty_heap(0 := [UnorderedLink 2 {|alice, bob|}]))"
    using run [OF c1, of False empty_heap] sl
    by (simp add: execute_explicit_store empty_heap_def)
  show ?thesis
    using p ne sl first
      run [OF c1, of False empty_heap] run [OF c2, of True empty_heap]
      run [OF c1, of False "empty_heap(0 := [UnorderedLink 2 {|alice, bob|}])"]
      materialize_order_independent_idempotent
        [of "[alice, bob]" "[bob, alice]" 2 "[]" alice
          "reporting_collaborators [alice, bob]" "reporting_collaborators [bob, alice]"
          likes_link 0 False empty_heap empty_heap likes_link True empty_heap
          "{|alice, bob|}" "AtomValue (UnorderedLink 2 {|alice, bob|})"
          "empty_heap(0 := [UnorderedLink 2 {|alice, bob|}])"]
    by (simp add: c1 c2)
qed

end
